theory Spec2Isabelle
  imports Main
begin

section \<open>Go values, errors, panics\<close>

text \<open>
  The package \<^verbatim>\<open>chartutil\<close> validates the values of a chart and of its subcharts
  against their JSON schemas (\<^verbatim>\<open>pkg/chartutil/jsonschema.go\<close>). The Go code is glue
  around four libraries (\<^verbatim>\<open>sigs.k8s.io/yaml\<close>, \<^verbatim>\<open>encoding/json\<close>, \<^verbatim>\<open>net/url\<close> and the
  two schema engines \<^verbatim>\<open>santhosh-tekuri/jsonschema/v6\<close> and \<^verbatim>\<open>xeipuuv/gojsonschema\<close>).
  The libraries are parameters of the model; everything the file itself does (the
  order of the calls, the early returns, the \<^verbatim>\<open>recover\<close>, the string building, the
  type assertion on the values of a subchart) is modelled as written.
\<close>

type_synonym bytes = string

text \<open>
  A value of type \<^verbatim>\<open>interface{}\<close> as the validator sees it: the nil interface, a
  sequence, a \<^verbatim>\<open>map[string]interface{}\<close> (which may be a nil map), or any other
  dynamic value, kept with the name of its Go type and its JSON text. A Go map is an
  association list read with \<open>map_of\<close>.
\<close>

datatype val = VNil | VScalar string string | VSeq "val list" | VMap gomap
  and gomap = NilMap | GoMap "(string \<times> val) list"

text \<open>\<^verbatim>\<open>values[k]\<close>: a missing key, or any key of a nil map, reads as the nil interface.\<close>

fun index :: "gomap \<Rightarrow> string \<Rightarrow> val" where
  "index NilMap k = VNil"
| "index (GoMap kvs) k = (case map_of kvs k of None \<Rightarrow> VNil | Some v \<Rightarrow> v)"

fun go_type_name :: "val \<Rightarrow> string" where
  "go_type_name VNil = ''nil''"
| "go_type_name (VScalar ty txt) = ty"
| "go_type_name (VSeq vs) = ''[]interface {}''"
| "go_type_name (VMap m) = ''map[string]interface {}''"

text \<open>
  A panic carries a value, which is never nil (since Go 1.21 a \<^verbatim>\<open>panic(nil)\<close> carries a
  \<^verbatim>\<open>*runtime.PanicNilError\<close>). A library panics with a value of its own, kept as the
  text that the verb \<^verbatim>\<open>%s\<close> prints for it; the Go runtime panics with a
  \<^verbatim>\<open>*runtime.TypeAssertionError\<close> when a single-valued type assertion fails.
\<close>

datatype panic = LibPanic string | TypeAssertionError string

fun fmt_s :: "panic \<Rightarrow> string" where
  "fmt_s (LibPanic s) = s"
| "fmt_s (TypeAssertionError dyn) =
     ''interface conversion: interface {} is '' @ dyn @ '', not map[string]interface {}''"

text \<open>A call either panics or returns.\<close>

datatype 'a res = Panicked panic | Returned 'a

text \<open>A Go \<^verbatim>\<open>error\<close>: the dynamic type of the value and the text of its \<^verbatim>\<open>Error()\<close>.\<close>

datatype go_error = GoError (dyn_type: string) (Error: string)

definition errors_New :: "string \<Rightarrow> go_error" where
  "errors_New s = GoError ''*errors.fundamental'' s"

definition fmt_Errorf :: "string \<Rightarrow> go_error" where
  "fmt_Errorf s = GoError ''*errors.errorString'' s"

text \<open>\<^verbatim>\<open>v.(map[string]interface{})\<close>, the single-valued form: it panics on any other value.\<close>

fun assert_map :: "val \<Rightarrow> panic + gomap" where
  "assert_map (VMap m) = Inr m"
| "assert_map v = Inl (TypeAssertionError (go_type_name v))"

section \<open>The libraries\<close>

text \<open>
  Every call into the YAML library and into the two schema engines is recorded, in
  order, with the documents and resource names it is given. A computation is the list
  of the calls it made and how it ended.
\<close>

datatype call =
    YamlMarshal gomap
  | YamlToJSON bytes
  | NvUnmarshalJSON bytes
  | NvAddResource string
  | NvCompile string
  | NvValidate
  | GjsValidate bytes bytes

type_synonym 'a io = "call list \<times> 'a res"

definition io_return :: "'a \<Rightarrow> 'a io" where
  "io_return x = ([], Returned x)"

definition io_bind :: "'a io \<Rightarrow> ('a \<Rightarrow> 'b io) \<Rightarrow> 'b io" where
  "io_bind m f =
     (case m of
        (t, Panicked p) \<Rightarrow> (t, Panicked p)
      | (t, Returned x) \<Rightarrow> (case f x of (t', r) \<Rightarrow> (t @ t', r)))"

definition lib_call :: "call \<Rightarrow> 'a res \<Rightarrow> 'a io" where
  "lib_call c r = ([c], r)"

record url =
  Host :: string
  EscapedPath :: string

text \<open>The anonymous struct \<^verbatim>\<open>partialSchema\<close>; its one field is \<^verbatim>\<open>Schema\<close>.\<close>

record partialSchema =
  Schema' :: string

text \<open>
  What \<^verbatim>\<open>gojsonschema.Validate\<close> returns: \<^verbatim>\<open>Valid()\<close>, and \<^verbatim>\<open>Errors()\<close> with each
  description as \<^verbatim>\<open>%s\<close> prints it.
\<close>

record result =
  Valid :: bool
  Errors :: "string list"

text \<open>
  The library functions the file calls. \<open>'d\<close> is a document parsed by the modern
  engine, \<open>'c\<close> its compiler (\<^verbatim>\<open>AddResource\<close> returns the compiler it has changed),
  \<open>'v\<close> a compiled schema. The calls of the standard library return their error as a
  value; the calls of the three other libraries may also panic.
  \<^verbatim>\<open>json.Unmarshal\<close> is given the struct it fills and returns it with its error.
\<close>

record ('d, 'c, 'v) libs =
  yaml_Marshal :: "gomap \<Rightarrow> (go_error + bytes) res"
  yaml_YAMLToJSON :: "bytes \<Rightarrow> (go_error + bytes) res"
  json_Unmarshal :: "bytes \<Rightarrow> partialSchema \<Rightarrow> go_error option \<times> partialSchema"
  url_Parse :: "string \<Rightarrow> go_error + url"
  nv_UnmarshalJSON :: "bytes \<Rightarrow> (go_error + 'd) res"
  nv_NewCompiler :: "'c"
  nv_AddResource :: "'c \<Rightarrow> string \<Rightarrow> 'd \<Rightarrow> (go_error + 'c) res"
  nv_Compile :: "'c \<Rightarrow> string \<Rightarrow> (go_error + 'v) res"
  nv_Validate :: "'v \<Rightarrow> 'd \<Rightarrow> go_error option res"
  gjs_Validate :: "bytes \<Rightarrow> bytes \<Rightarrow> (go_error + result) res"

section \<open>The validator\<close>

definition schema_url :: string where
  "schema_url = ''file:///values.schema.json''"

text \<open>
  \<^verbatim>\<open>validateUsingNewValidator\<close> returns \<^verbatim>\<open>(processed, err)\<close>. The error of
  \<^verbatim>\<open>json.Unmarshal\<close> is dropped; only the field it filled is read.
\<close>

definition validateUsingNewValidator ::
  "('d, 'c, 'v) libs \<Rightarrow> bytes \<Rightarrow> bytes \<Rightarrow> (bool \<times> go_error option) io" where
  "validateUsingNewValidator L valuesJSON schemaJSON =
     (let partialSchema = snd (json_Unmarshal L schemaJSON \<lparr>Schema' = []\<rparr>) in
      if Schema' partialSchema = [] then io_return (False, None)
      else
        (case url_Parse L (Schema' partialSchema) of
           Inl err \<Rightarrow> io_return (False, None)
         | Inr url \<Rightarrow>
             if Host url = ''json-schema.org'' \<and>
                (EscapedPath url = ''/draft-04/schema'' \<or>
                 EscapedPath url = ''/draft-06/schema'' \<or>
                 EscapedPath url = ''/draft-07/schema'')
             then io_return (False, None)
             else
               io_bind (lib_call (NvUnmarshalJSON schemaJSON) (nv_UnmarshalJSON L schemaJSON))
                 (\<lambda>r. case r of
                    Inl err \<Rightarrow> io_return (True, Some err)
                  | Inr schema \<Rightarrow>
               io_bind (lib_call (NvUnmarshalJSON valuesJSON) (nv_UnmarshalJSON L valuesJSON))
                 (\<lambda>r. case r of
                    Inl err \<Rightarrow> io_return (True, Some err)
                  | Inr values \<Rightarrow>
               io_bind (lib_call (NvAddResource schema_url)
                          (nv_AddResource L (nv_NewCompiler L) schema_url schema))
                 (\<lambda>r. case r of
                    Inl err \<Rightarrow> io_return (True, Some err)
                  | Inr compiler \<Rightarrow>
               io_bind (lib_call (NvCompile schema_url) (nv_Compile L compiler schema_url))
                 (\<lambda>r. case r of
                    Inl err \<Rightarrow> io_return (True, Some err)
                  | Inr validator \<Rightarrow>
               io_bind (lib_call NvValidate (nv_Validate L validator values))
                 (\<lambda>err. io_return (True, err))))))))"

text \<open>
  The body of \<^verbatim>\<open>ValidateAgainstSingleSchema\<close>, before its deferred function runs.
  \<^verbatim>\<open>gojsonschema.NewBytesLoader\<close> only wraps the bytes it is given.
\<close>

definition ValidateAgainstSingleSchema_body ::
  "('d, 'c, 'v) libs \<Rightarrow> gomap \<Rightarrow> bytes \<Rightarrow> go_error option io" where
  "ValidateAgainstSingleSchema_body L values schemaJSON =
     io_bind (lib_call (YamlMarshal values) (yaml_Marshal L values))
       (\<lambda>r. case r of
          Inl err \<Rightarrow> io_return (Some err)
        | Inr valuesData \<Rightarrow>
     io_bind (lib_call (YamlToJSON valuesData) (yaml_YAMLToJSON L valuesData))
       (\<lambda>r. case r of
          Inl err \<Rightarrow> io_return (Some err)
        | Inr valuesJSON0 \<Rightarrow>
     (let valuesJSON = (if valuesJSON0 = ''null'' then ''{}'' else valuesJSON0) in
     io_bind (validateUsingNewValidator L valuesJSON schemaJSON)
       (\<lambda>(processed, err).
          if processed then io_return err
          else
     io_bind (lib_call (GjsValidate schemaJSON valuesJSON) (gjs_Validate L schemaJSON valuesJSON))
       (\<lambda>r. case r of
          Inl err \<Rightarrow> io_return (Some err)
        | Inr result \<Rightarrow>
            if \<not> Valid result
            then io_return
                   (Some (errors_New (concat (map (\<lambda>desc. ''- '' @ desc @ ''\<newline>'') (Errors result)))))
            else io_return None)))))"

text \<open>
  The deferred function: a panic of the body is recovered and becomes the returned
  error \<^verbatim>\<open>fmt.Errorf("unable to validate schema: %s", r)\<close>.
\<close>

definition ValidateAgainstSingleSchema ::
  "('d, 'c, 'v) libs \<Rightarrow> gomap \<Rightarrow> bytes \<Rightarrow> go_error option io" where
  "ValidateAgainstSingleSchema L values schemaJSON =
     (case ValidateAgainstSingleSchema_body L values schemaJSON of
        (t, Panicked r) \<Rightarrow>
          (t, Returned (Some (fmt_Errorf (''unable to validate schema: '' @ fmt_s r))))
      | (t, Returned reterr) \<Rightarrow> (t, Returned reterr))"

text \<open>
  Modelled from the spec: the type \<^verbatim>\<open>chart.Chart\<close> of \<^verbatim>\<open>pkg/chart\<close> is not part of
  the file. A bundle is a named node with an optional raw schema document and a list of
  child bundles; \<open>Name\<close>, \<open>Schema\<close> and \<open>Dependencies\<close> are what \<^verbatim>\<open>chrt.Name()\<close>,
  \<^verbatim>\<open>chrt.Schema\<close> (\<open>None\<close> for a nil slice) and \<^verbatim>\<open>chrt.Dependencies()\<close> give.
\<close>

datatype chart = Chart (Name: string) (Schema: "bytes option") (Dependencies: "chart list")

text \<open>
  \<^verbatim>\<open>ValidateAgainstSchema\<close>, and its loop over the dependencies with the contents of
  the \<^verbatim>\<open>strings.Builder\<close> as the loop's state. There is no \<^verbatim>\<open>recover\<close> here: a panic
  ends the walk.
\<close>

fun ValidateAgainstSchema ::
      "('d, 'c, 'v) libs \<Rightarrow> chart \<Rightarrow> gomap \<Rightarrow> go_error option io"
  and ValidateDependencies ::
      "('d, 'c, 'v) libs \<Rightarrow> chart list \<Rightarrow> gomap \<Rightarrow> string \<Rightarrow> string io" where
  "ValidateAgainstSchema L (Chart name schema deps) values =
     io_bind
       (case schema of
          None \<Rightarrow> io_return []
        | Some schemaJSON \<Rightarrow>
            io_bind (ValidateAgainstSingleSchema L values schemaJSON)
              (\<lambda>err. io_return
                 (case err of None \<Rightarrow> [] | Some e \<Rightarrow> (name @ '':\<newline>'') @ Error e)))
       (\<lambda>sb. io_bind (ValidateDependencies L deps values sb)
          (\<lambda>sb. io_return (if length sb > 0 then Some (errors_New sb) else None)))"
| "ValidateDependencies L [] values sb = io_return sb"
| "ValidateDependencies L (subchart # rest) values sb =
     (case assert_map (index values (Name subchart)) of
        Inl p \<Rightarrow> ([], Panicked p)
      | Inr subchartValues \<Rightarrow>
          io_bind (ValidateAgainstSchema L subchart subchartValues)
            (\<lambda>err. ValidateDependencies L rest values
               (case err of None \<Rightarrow> sb | Some e \<Rightarrow> sb @ Error e)))"

section \<open>What the specification speaks of\<close>

subsection \<open>The dialect rule\<close>

text \<open>
  The rule of the specification, in its words: the declared dialect is the
  \<^verbatim>\<open>$schema\<close> field; when it is absent, or does not parse as a URI, or parses to the
  host \<^verbatim>\<open>json-schema.org\<close> with one of the three draft paths, the legacy engine is
  used, and the modern engine otherwise. It reads the schema bytes only.
\<close>

datatype engine = LegacyEngine | ModernEngine

definition declared_dialect :: "('d, 'c, 'v) libs \<Rightarrow> bytes \<Rightarrow> string" where
  "declared_dialect L schemaJSON = Schema' (snd (json_Unmarshal L schemaJSON \<lparr>Schema' = []\<rparr>))"

definition legacy_paths :: "string list" where
  "legacy_paths = [''/draft-04/schema'', ''/draft-06/schema'', ''/draft-07/schema'']"

definition spec_engine :: "('d, 'c, 'v) libs \<Rightarrow> bytes \<Rightarrow> engine" where
  "spec_engine L schemaJSON =
     (if declared_dialect L schemaJSON = [] then LegacyEngine
      else
        (case url_Parse L (declared_dialect L schemaJSON) of
           Inl err \<Rightarrow> LegacyEngine
         | Inr u \<Rightarrow>
             if Host u = ''json-schema.org'' \<and> EscapedPath u \<in> set legacy_paths
             then LegacyEngine else ModernEngine))"



text \<open>The canonical document: \<^verbatim>\<open>null\<close> is replaced by the empty object.\<close>

definition canonical :: "bytes \<Rightarrow> bytes" where
  "canonical j = (if j = ''null'' then ''{}'' else j)"

subsection \<open>Bundle trees and reports\<close>

text \<open>
  The invariant of the data model: the name of every child bundle is bound, in the
  values of its parent, to a map, and so on down the tree.
\<close>

fun aligned :: "chart \<Rightarrow> gomap \<Rightarrow> bool" where
  "aligned (Chart n s deps) v =
     list_all (\<lambda>d. case index v (Name d) of VMap m \<Rightarrow> aligned d m | _ \<Rightarrow> False) deps"

definition deps_aligned :: "chart list \<Rightarrow> gomap \<Rightarrow> bool" where
  "deps_aligned deps v =
     list_all (\<lambda>d. case index v (Name d) of VMap m \<Rightarrow> aligned d m | _ \<Rightarrow> False) deps"

fun schemaless :: "chart \<Rightarrow> bool" where
  "schemaless (Chart n s deps) = (s = None \<and> list_all schemaless deps)"

text \<open>The value subtree of a child: the map under its name.\<close>

fun sub_values :: "gomap \<Rightarrow> chart \<Rightarrow> gomap" where
  "sub_values v c = (case index v (Name c) of VMap m \<Rightarrow> m | _ \<Rightarrow> NilMap)"

text \<open>
  The check of one node against its own schema: the calls it makes and the error it
  returns (none when the node has no schema). The check never panics (\<open>single_returns\<close>
  below), so the last case of \<open>own_error\<close> is never taken.
\<close>

definition own_calls :: "('d, 'c, 'v) libs \<Rightarrow> bytes option \<Rightarrow> gomap \<Rightarrow> call list" where
  "own_calls L schema v =
     (case schema of None \<Rightarrow> [] | Some s \<Rightarrow> fst (ValidateAgainstSingleSchema L v s))"

definition own_error :: "('d, 'c, 'v) libs \<Rightarrow> bytes option \<Rightarrow> gomap \<Rightarrow> go_error option" where
  "own_error L schema v =
     (case schema of
        None \<Rightarrow> None
      | Some s \<Rightarrow>
          (case snd (ValidateAgainstSingleSchema L v s) of
             Returned e \<Rightarrow> e
           | Panicked p \<Rightarrow> None))"

definition own_failing ::
  "('d, 'c, 'v) libs \<Rightarrow> string \<Rightarrow> bytes option \<Rightarrow> gomap \<Rightarrow> (string \<times> go_error) list" where
  "own_failing L name schema v =
     (case own_error L schema v of None \<Rightarrow> [] | Some e \<Rightarrow> [(name, e)])"

text \<open>
  The traversal, parent first and then the children in their order: the calls of
  every node's check, and the failing nodes, each with its name and its error.
\<close>

fun tree_calls :: "('d, 'c, 'v) libs \<Rightarrow> chart \<Rightarrow> gomap \<Rightarrow> call list" where
  "tree_calls L (Chart n s deps) v =
     own_calls L s v @ concat (map (\<lambda>d. tree_calls L d (sub_values v d)) deps)"

fun failing :: "('d, 'c, 'v) libs \<Rightarrow> chart \<Rightarrow> gomap \<Rightarrow> (string \<times> go_error) list" where
  "failing L (Chart n s deps) v =
     own_failing L n s v @ concat (map (\<lambda>d. failing L d (sub_values v d)) deps)"

definition deps_calls :: "('d, 'c, 'v) libs \<Rightarrow> chart list \<Rightarrow> gomap \<Rightarrow> call list" where
  "deps_calls L deps v = concat (map (\<lambda>d. tree_calls L d (sub_values v d)) deps)"

definition deps_failing ::
  "('d, 'c, 'v) libs \<Rightarrow> chart list \<Rightarrow> gomap \<Rightarrow> (string \<times> go_error) list" where
  "deps_failing L deps v = concat (map (\<lambda>d. failing L d (sub_values v d)) deps)"

text \<open>A section of the report, and the report of a list of failing nodes.\<close>

fun block :: "string \<times> go_error \<Rightarrow> string" where
  "block (n, e) = (n @ '':\<newline>'') @ Error e"

definition report :: "(string \<times> go_error) list \<Rightarrow> go_error option" where
  "report fs = (if fs = [] then None else Some (errors_New (concat (map block fs))))"

text \<open>A violation as the legacy path prints it.\<close>

definition bullet :: "string \<Rightarrow> string" where
  "bullet desc = ''- '' @ desc @ ''\<newline>''"

subsection \<open>The body after canonicalisation\<close>

text \<open>
  The rest of the body of \<^verbatim>\<open>ValidateAgainstSingleSchema\<close> once the values are
  canonical bytes (from the call of \<^verbatim>\<open>validateUsingNewValidator\<close> on), as a function
  of these bytes; \<open>body_converted\<close> below shows that the body is this function after the
  two conversions.
\<close>

definition dispatch :: "('d, 'c, 'v) libs \<Rightarrow> bytes \<Rightarrow> bytes \<Rightarrow> go_error option io" where
  "dispatch L valuesJSON schemaJSON =
     io_bind (validateUsingNewValidator L valuesJSON schemaJSON)
       (\<lambda>(processed, err).
          if processed then io_return err
          else
     io_bind (lib_call (GjsValidate schemaJSON valuesJSON) (gjs_Validate L schemaJSON valuesJSON))
       (\<lambda>r. case r of
          Inl err \<Rightarrow> io_return (Some err)
        | Inr result \<Rightarrow>
            if \<not> Valid result
            then io_return
                   (Some (errors_New (concat (map (\<lambda>desc. ''- '' @ desc @ ''\<newline>'') (Errors result)))))
            else io_return None))"


section \<open>A small instance of the libraries\<close>

text \<open>
  An instance of the libraries on which the theorems are run. Values are marshalled
  to YAML in flow style (which is JSON text), a schema's dialect is read from a leading
  \<^verbatim>\<open>$schema\<close> member, and both engines know three schemas by their last member: one
  that rejects every document (\<^verbatim>\<open>"not":{}\<close>), one that wants an object, and any other,
  which accepts every document. The modern engine refuses to compile a schema whose
  \<^verbatim>\<open>type\<close> is a number.
\<close>

fun commas :: "string list \<Rightarrow> string" where
  "commas [] = []"
| "commas [x] = x"
| "commas (x # y # ys) = x @ '','' @ commas (y # ys)"

fun render :: "val \<Rightarrow> string"
  and render_map :: "gomap \<Rightarrow> string"
  and render_fields :: "(string \<times> val) list \<Rightarrow> string list"
  and render_items :: "val list \<Rightarrow> string list" where
  "render VNil = ''null''"
| "render (VScalar ty txt) = txt"
| "render (VSeq vs) = ''['' @ commas (render_items vs) @ '']''"
| "render (VMap m) = render_map m"
| "render_map NilMap = ''null''"
| "render_map (GoMap kvs) = ''{'' @ commas (render_fields kvs) @ ''}''"
| "render_fields [] = []"
| "render_fields (kv # kvs) =
     ([CHR 0x22] @ fst kv @ [CHR 0x22] @ '':'' @ render (snd kv)) # render_fields kvs"
| "render_items [] = []"
| "render_items (v # vs) = render v # render_items vs"

definition ends_with :: "string \<Rightarrow> string \<Rightarrow> bool" where
  "ends_with suf s = (drop (length s - length suf) s = suf)"

definition starts_with :: "string \<Rightarrow> string \<Rightarrow> bool" where
  "starts_with pre s = (take (length pre) s = pre)"

definition toy_violations :: "bytes \<Rightarrow> bytes \<Rightarrow> string list" where
  \<open>toy_violations schema doc =
     (if ends_with ''"not":{}}'' schema then [''(root): Must not validate the schema (not)'']
      else if ends_with ''"type":"object"}'' schema \<and> \<not> starts_with ''{'' doc
      then [''(root): Invalid type. Expected: object, given: null'']
      else [])\<close>

definition toy_url_Parse :: "string \<Rightarrow> go_error + url" where
  "toy_url_Parse s =
     (if starts_with '':'' s then Inl (GoError ''*url.Error'' ''missing protocol scheme'')
      else
        (let rest = (if starts_with ''https://'' s then drop 8 s
                     else if starts_with ''http://'' s then drop 7 s else [])
         in Inr \<lparr>Host = takeWhile (\<lambda>c. c \<noteq> CHR ''/'') rest,
                 EscapedPath = takeWhile (\<lambda>c. c \<noteq> CHR ''#'' \<and> c \<noteq> CHR ''?'')
                                 (dropWhile (\<lambda>c. c \<noteq> CHR ''/'') rest)\<rparr>))"

definition json_SyntaxError :: go_error where
  "json_SyntaxError =
     GoError ''*json.SyntaxError'' ''invalid character looking for beginning of value''"

definition toy_json_Unmarshal ::
  "bytes \<Rightarrow> partialSchema \<Rightarrow> go_error option \<times> partialSchema" where
  \<open>toy_json_Unmarshal b ps =
     (if starts_with ''{"$schema":"'' b
      then (None, ps\<lparr>Schema' := takeWhile (\<lambda>c. c \<noteq> CHR 0x22) (drop 12 b)\<rparr>)
      else if starts_with ''{'' b then (None, ps)
      else (Some json_SyntaxError, ps))\<close>

definition toy_Compile :: "(string \<times> bytes) list \<Rightarrow> string \<Rightarrow> (go_error + bytes) res" where
  \<open>toy_Compile c u =
     (case map_of c u of
        None \<Rightarrow>
          Returned (Inl (GoError ''*jsonschema.LoadURLError'' ''failing loading resource''))
      | Some d \<Rightarrow>
          if ends_with ''"type":1}'' d
          then Returned (Inl (GoError ''*jsonschema.SchemaValidationError''
                                ''metaschema validation failed''))
          else Returned (Inr d))\<close>

definition toy_Validate :: "bytes \<Rightarrow> bytes \<Rightarrow> go_error option res" where
  "toy_Validate v d =
     (case toy_violations v d of
        [] \<Rightarrow> Returned None
      | x # xs \<Rightarrow>
          Returned (Some (GoError ''*jsonschema.ValidationError''
            (''jsonschema validation failed'' @
             concat (map (\<lambda>x. ''\<newline>- '' @ x) (x # xs))))))"

definition toy_gjs_Validate :: "bytes \<Rightarrow> bytes \<Rightarrow> (go_error + result) res" where
  "toy_gjs_Validate s d =
     (if starts_with ''{'' s
      then Returned (Inr \<lparr>Valid = (toy_violations s d = []), Errors = toy_violations s d\<rparr>)
      else Returned (Inl json_SyntaxError))"

definition toy_libs :: "(bytes, (string \<times> bytes) list, bytes) libs" where
  "toy_libs =
     \<lparr>yaml_Marshal = (\<lambda>v. Returned (Inr (render_map v @ ''\<newline>''))),
      yaml_YAMLToJSON =
        (\<lambda>y. if ends_with ''\<newline>'' y then Returned (Inr (butlast y))
             else Returned (Inl (GoError ''*errors.errorString''
                                   ''yaml: unexpected end of document''))),
      json_Unmarshal = toy_json_Unmarshal,
      url_Parse = toy_url_Parse,
      nv_UnmarshalJSON =
        (\<lambda>b. if starts_with ''{'' b then Returned (Inr b) else Returned (Inl json_SyntaxError)),
      nv_NewCompiler = [],
      nv_AddResource = (\<lambda>c u d. Returned (Inr (c @ [(u, d)]))),
      nv_Compile = toy_Compile,
      nv_Validate = toy_Validate,
      gjs_Validate = toy_gjs_Validate\<rparr>"

text \<open>The schema documents of the examples.\<close>

definition schema_any :: bytes where
  "schema_any = ''{}''"

definition schema_object :: bytes where
  \<open>schema_object = ''{"type":"object"}''\<close>

definition schema_none :: bytes where
  \<open>schema_none = ''{"not":{}}''\<close>


definition schema_2020_any :: bytes where
  \<open>schema_2020_any = ''{"$schema":"https://json-schema.org/draft/2020-12/schema"}''\<close>


definition schema_2020_bad :: bytes where
  \<open>schema_2020_bad = ''{"$schema":"https://json-schema.org/draft/2020-12/schema","type":1}''\<close>

definition not_json :: bytes where
  "not_json = ''not json''"

text \<open>
  The example of the specification: a parent whose schema is violated, a first child
  whose schema is violated and a second child whose schema is satisfied.
\<close>

definition example_values :: gomap where
  "example_values = GoMap [(''c1'', VMap (GoMap [])), (''c2'', VMap NilMap)]"

definition example_tree :: chart where
  "example_tree =
     Chart ''parent'' (Some schema_none)
       [Chart ''c1'' (Some schema_none) [], Chart ''c2'' (Some schema_any) []]"

definition not_violation :: go_error where
  "not_violation = errors_New ''- (root): Must not validate the schema (not)\<newline>''"

text \<open>
  A tree that breaks the invariant: the schema of the parent is violated, the name of
  the first child is not bound in the values, and the schema of the second child is
  violated.
\<close>

definition broken_tree :: chart where
  "broken_tree =
     Chart ''parent'' (Some schema_none) [Chart ''a'' None [], Chart ''b'' (Some schema_none) []]"

definition broken_values :: gomap where
  "broken_values = GoMap [(''b'', VMap (GoMap []))]"

text \<open>
  Variants of the instance: engines that panic while they validate, a modern engine
  whose parser refuses every document, and one that refuses to register a resource.
\<close>

definition toy_panicking :: "(bytes, (string \<times> bytes) list, bytes) libs" where
  "toy_panicking =
     toy_libs\<lparr>nv_Validate := (\<lambda>v d. Panicked (LibPanic ''runtime error: index out of range'')),
              gjs_Validate :=
                (\<lambda>s d. Panicked (LibPanic
                   ''runtime error: invalid memory address or nil pointer dereference''))\<rparr>"

definition toy_strict :: "(bytes, (string \<times> bytes) list, bytes) libs" where
  "toy_strict = toy_libs\<lparr>nv_UnmarshalJSON := (\<lambda>b. Returned (Inl json_SyntaxError))\<rparr>"

definition toy_unregistered :: "(bytes, (string \<times> bytes) list, bytes) libs" where
  "toy_unregistered =
     toy_libs\<lparr>nv_AddResource :=
       (\<lambda>c u d. Returned (Inl (GoError ''*jsonschema.ResourceExistsError''
                                  ''resource already exists'')))\<rparr>"

section \<open>Computations\<close>

lemma io_bind_return [simp]: "io_bind (io_return x) f = f x"
  by (simp add: io_bind_def io_return_def split: prod.splits)

lemma io_bind_Panicked [simp]: "io_bind (t, Panicked p) f = (t, Panicked p)"
  by (simp add: io_bind_def)

lemma io_bind_Returned [simp]: "io_bind (t, Returned x) f = (t @ fst (f x), snd (f x))"
  by (simp add: io_bind_def split: prod.splits)

lemma lib_call_simp [simp]: "lib_call c r = ([c], r)"
  by (simp add: lib_call_def)

lemma fst_io_return [simp]: "fst (io_return x) = []"
  by (simp add: io_return_def)

lemma snd_io_return [simp]: "snd (io_return x) = Returned x"
  by (simp add: io_return_def)

lemma Error_errors_New [simp]: "Error (errors_New s) = s"
  by (simp add: errors_New_def)

section \<open>One node: conversion, selection, recovery\<close>

lemma spec_engine_legacy:
  "spec_engine L s = LegacyEngine \<Longrightarrow>
     validateUsingNewValidator L j s = ([], Returned (False, None))"
  by (auto simp: spec_engine_def declared_dialect_def validateUsingNewValidator_def Let_def
      legacy_paths_def io_return_def split: if_splits sum.splits)


lemma body_converted:
  "yaml_Marshal L vals = Returned (Inr y) \<Longrightarrow> yaml_YAMLToJSON L y = Returned (Inr j) \<Longrightarrow>
     ValidateAgainstSingleSchema_body L vals s =
       (YamlMarshal vals # YamlToJSON y # fst (dispatch L (canonical j) s),
        snd (dispatch L (canonical j) s))"
  by (simp add: ValidateAgainstSingleSchema_body_def dispatch_def canonical_def Let_def)

lemma recovered:
  "ValidateAgainstSingleSchema L vals s =
     (fst (ValidateAgainstSingleSchema_body L vals s),
      Returned (case snd (ValidateAgainstSingleSchema_body L vals s) of
                  Panicked r \<Rightarrow> Some (fmt_Errorf (''unable to validate schema: '' @ fmt_s r))
                | Returned reterr \<Rightarrow> reterr))"
  by (simp add: ValidateAgainstSingleSchema_def split: prod.splits res.splits)

lemma single_returns: "\<exists>e. snd (ValidateAgainstSingleSchema L v s) = Returned e"
  by (simp add: recovered)

lemma dispatch_legacy:
  "spec_engine L s = LegacyEngine \<Longrightarrow>
     dispatch L j s =
       ([GjsValidate s j],
        (case gjs_Validate L s j of
           Panicked p \<Rightarrow> Panicked p
         | Returned (Inl e) \<Rightarrow> Returned (Some e)
         | Returned (Inr r) \<Rightarrow>
             Returned (if \<not> Valid r then Some (errors_New (concat (map bullet (Errors r))))
                       else None)))"
  by (simp add: dispatch_def spec_engine_legacy bullet_def [abs_def] io_return_def io_bind_def
      split: res.splits sum.splits)





lemma dispatch_yaml_update [simp]:
  "dispatch (L\<lparr>yaml_YAMLToJSON := f\<rparr>) j s = dispatch L j s"
  by (simp add: dispatch_def validateUsingNewValidator_def Let_def
      cong: sum.case_cong if_cong prod.case_cong)

lemma modern_conditions:
  "spec_engine L s = ModernEngine \<Longrightarrow>
     Schema' (snd (json_Unmarshal L s \<lparr>Schema' = []\<rparr>)) \<noteq> [] \<and>
     (\<exists>u. url_Parse L (Schema' (snd (json_Unmarshal L s \<lparr>Schema' = []\<rparr>))) = Inr u \<and>
          \<not> (Host u = ''json-schema.org'' \<and>
             (EscapedPath u = ''/draft-04/schema'' \<or> EscapedPath u = ''/draft-06/schema'' \<or>
              EscapedPath u = ''/draft-07/schema'')))"
  by (auto simp: spec_engine_def declared_dialect_def legacy_paths_def split: if_splits sum.splits)

lemma modern_parse_fails:
  assumes "spec_engine L s = ModernEngine" and "nv_UnmarshalJSON L s = Returned (Inl e)"
  shows "validateUsingNewValidator L j s = ([NvUnmarshalJSON s], Returned (True, Some e))"
  using modern_conditions [OF assms(1)] assms(2)
  by (auto simp: validateUsingNewValidator_def Let_def io_return_def)

lemma modern_register_fails:
  assumes "spec_engine L s = ModernEngine" and "nv_UnmarshalJSON L s = Returned (Inr ds)"
    and "nv_UnmarshalJSON L j = Returned (Inr dv)"
    and "nv_AddResource L (nv_NewCompiler L) schema_url ds = Returned (Inl e)"
  shows "validateUsingNewValidator L j s =
           ([NvUnmarshalJSON s, NvUnmarshalJSON j, NvAddResource schema_url], Returned (True, Some e))"
  using modern_conditions [OF assms(1)] assms(2-)
  by (auto simp: validateUsingNewValidator_def Let_def io_return_def)

lemma modern_compile_fails:
  assumes "spec_engine L s = ModernEngine" and "nv_UnmarshalJSON L s = Returned (Inr ds)"
    and "nv_UnmarshalJSON L j = Returned (Inr dv)"
    and "nv_AddResource L (nv_NewCompiler L) schema_url ds = Returned (Inr c)"
    and "nv_Compile L c schema_url = Returned (Inl e)"
  shows "validateUsingNewValidator L j s =
           ([NvUnmarshalJSON s, NvUnmarshalJSON j, NvAddResource schema_url, NvCompile schema_url],
            Returned (True, Some e))"
  using modern_conditions [OF assms(1)] assms(2-)
  by (auto simp: validateUsingNewValidator_def Let_def io_return_def)

lemma modern_validates:
  assumes "spec_engine L s = ModernEngine" and "nv_UnmarshalJSON L s = Returned (Inr ds)"
    and "nv_UnmarshalJSON L j = Returned (Inr dv)"
    and "nv_AddResource L (nv_NewCompiler L) schema_url ds = Returned (Inr c)"
    and "nv_Compile L c schema_url = Returned (Inr v)"
  shows "validateUsingNewValidator L j s =
           ([NvUnmarshalJSON s, NvUnmarshalJSON j, NvAddResource schema_url, NvCompile schema_url,
             NvValidate],
            (case nv_Validate L v dv of
               Panicked p \<Rightarrow> Panicked p
             | Returned err \<Rightarrow> Returned (True, err)))"
  using modern_conditions [OF assms(1)] assms(2-)
  by (auto simp: validateUsingNewValidator_def Let_def io_return_def io_bind_def split: res.splits)

section \<open>The walk over the tree\<close>

lemma own_check:
  "(case schema of
      None \<Rightarrow> io_return []
    | Some schemaJSON \<Rightarrow>
        io_bind (ValidateAgainstSingleSchema L vals schemaJSON)
          (\<lambda>err. io_return (case err of None \<Rightarrow> [] | Some e \<Rightarrow> (name @ '':\<newline>'') @ Error e)))
   = (own_calls L schema vals, Returned (concat (map block (own_failing L name schema vals))))"
proof (cases schema)
  case None
  then show ?thesis by (simp add: own_calls_def own_error_def own_failing_def io_return_def)
next
  case (Some s)
  obtain t e where r: "ValidateAgainstSingleSchema L vals s = (t, Returned e)"
    using single_returns [of L vals s] by (cases "ValidateAgainstSingleSchema L vals s") auto
  show ?thesis using Some r
    by (simp add: own_calls_def own_error_def own_failing_def io_return_def split: option.splits)
qed

lemma block_nonempty: "block f \<noteq> []"
  by (cases f) simp

lemma report_append:
  "(if length (concat (map block fs) @ concat (map block gs)) > 0
    then Some (errors_New (concat (map block fs) @ concat (map block gs))) else None)
   = report (fs @ gs)"
  by (cases fs; cases gs) (simp_all add: report_def block_nonempty)

lemma walk_aligned:
  "aligned c v \<Longrightarrow>
     ValidateAgainstSchema L c v = (tree_calls L c v, Returned (report (failing L c v)))"
  "deps_aligned deps v \<Longrightarrow>
     ValidateDependencies L deps v sb =
       (deps_calls L deps v, Returned (sb @ concat (map block (deps_failing L deps v))))"
proof (induction L c v and L deps v sb rule: ValidateAgainstSchema_ValidateDependencies.induct)
  case (1 L name schema deps vals)
  have a: "deps_aligned deps vals" using "1.prems" by (simp add: deps_aligned_def)
  have f: "failing L (Chart name schema deps) vals =
             own_failing L name schema vals @ deps_failing L deps vals"
    by (simp add: deps_failing_def)
  have c: "tree_calls L (Chart name schema deps) vals =
             own_calls L schema vals @ deps_calls L deps vals"
    by (simp add: deps_calls_def)
  let ?X = "concat (map block (own_failing L name schema vals))"
  let ?Y = "concat (map block (deps_failing L deps vals))"
  have r: "(if length (?X @ ?Y) > 0 then Some (errors_New (?X @ ?Y)) else None)
           = report (own_failing L name schema vals @ deps_failing L deps vals)"
    by (rule report_append)
  have "ValidateAgainstSchema L (Chart name schema deps) vals =
        io_bind (own_calls L schema vals, Returned ?X)
          (\<lambda>sb. io_bind (ValidateDependencies L deps vals sb)
             (\<lambda>sb. io_return (if length sb > 0 then Some (errors_New sb) else None)))"
    by (simp only: ValidateAgainstSchema.simps own_check)
  also have "\<dots> = (own_calls L schema vals @ deps_calls L deps vals,
        Returned (if length (?X @ ?Y) > 0 then Some (errors_New (?X @ ?Y)) else None))"
    by (simp add: "1.IH" [OF a] io_return_def)
  finally show ?case by (simp only: r f c)
next
  case (2 L vals sb)
  then show ?case by (simp add: io_return_def deps_calls_def deps_failing_def)
next
  case (3 L subchart rest vals sb)
  from "3.prems" obtain m where m: "index vals (Name subchart) = VMap m"
    and am: "aligned subchart m" and ar: "deps_aligned rest vals"
    by (auto simp: deps_aligned_def split: val.splits)
  have am': "assert_map (index vals (Name subchart)) = Inr m" using m by simp
  show ?case
    using "3.IH"(1) [OF am' am] "3.IH"(2) [OF am' ar] m
    by (simp add: deps_calls_def deps_failing_def report_def split: option.splits)
qed

lemma walk_misaligned:
  "\<not> aligned c v \<Longrightarrow>
     \<exists>t dyn. ValidateAgainstSchema L c v = (t, Panicked (TypeAssertionError dyn))"
  "\<not> deps_aligned deps v \<Longrightarrow>
     \<exists>t dyn. ValidateDependencies L deps v sb = (t, Panicked (TypeAssertionError dyn))"
proof (induction L c v and L deps v sb rule: ValidateAgainstSchema_ValidateDependencies.induct)
  case (1 L name schema deps vals)
  have a: "\<not> deps_aligned deps vals" using "1.prems" by (simp add: deps_aligned_def)
  let ?X = "concat (map block (own_failing L name schema vals))"
  obtain t dyn where d: "ValidateDependencies L deps vals ?X = (t, Panicked (TypeAssertionError dyn))"
    using "1.IH" [OF a] by blast
  have "ValidateAgainstSchema L (Chart name schema deps) vals =
        io_bind (own_calls L schema vals, Returned ?X)
          (\<lambda>sb. io_bind (ValidateDependencies L deps vals sb)
             (\<lambda>sb. io_return (if length sb > 0 then Some (errors_New sb) else None)))"
    by (simp only: ValidateAgainstSchema.simps own_check)
  also have "\<dots> = (own_calls L schema vals @ t, Panicked (TypeAssertionError dyn))"
    by (simp add: d)
  finally show ?case by blast
next
  case (2 L vals sb)
  then show ?case by (simp add: deps_aligned_def)
next
  case (3 L subchart rest vals sb)
  show ?case
  proof (cases "assert_map (index vals (Name subchart))")
    case (Inl p)
    then have "p = TypeAssertionError (go_type_name (index vals (Name subchart)))"
      by (cases "index vals (Name subchart)") auto
    with Inl show ?thesis by simp
  next
    case (Inr m)
    then have m: "index vals (Name subchart) = VMap m"
      by (cases "index vals (Name subchart)") auto
    show ?thesis
    proof (cases "aligned subchart m")
      case False
      from "3.IH"(1) [OF Inr False] obtain t dyn where
        "ValidateAgainstSchema L subchart m = (t, Panicked (TypeAssertionError dyn))" by blast
      with Inr show ?thesis by simp
    next
      case True
      with "3.prems" m have r: "\<not> deps_aligned rest vals" by (simp add: deps_aligned_def)
      from walk_aligned(1) [OF True] obtain t e where
        w: "ValidateAgainstSchema L subchart m = (t, Returned e)" by blast
      from "3.IH"(2) [OF Inr r] obtain t' dyn where
        "ValidateDependencies L rest vals (case e of None \<Rightarrow> sb | Some e \<Rightarrow> sb @ Error e)
           = (t', Panicked (TypeAssertionError dyn))" by blast
      with Inr w show ?thesis by simp
    qed
  qed
qed

lemma schemaless_quiet:
  "schemaless c \<Longrightarrow> tree_calls L c v = [] \<and> failing L c v = []"
proof (induction c arbitrary: v)
  case (Chart n s deps)
  then have s: "s = None" and d: "\<forall>x \<in> set deps. schemaless x" by (auto simp: list_all_iff)
  have "\<forall>x \<in> set deps. tree_calls L x (sub_values v x) = [] \<and> failing L x (sub_values v x) = []"
    using Chart.IH d by blast
  with s show ?case
    by (simp add: own_calls_def own_failing_def own_error_def)
qed

lemma block_fun: "(\<lambda>(n, err). n @ '':\<newline>'' @ Error err) = block"
  by (simp add: fun_eq_iff)

lemma walk_returns_aligned:
  "snd (ValidateAgainstSchema L c v) = Returned r \<Longrightarrow> aligned c v"
  using walk_misaligned(1) [of c v L] by (cases "aligned c v") auto

section \<open>The instance, evaluated\<close>

lemmas toy_defs = toy_libs_def toy_json_Unmarshal_def toy_url_Parse_def toy_Compile_def
  toy_Validate_def toy_gjs_Validate_def toy_violations_def starts_with_def ends_with_def
  json_SyntaxError_def

lemma toy_marshal_nil: "yaml_Marshal toy_libs NilMap = Returned (Inr ''null\<newline>'')"
  by (simp add: toy_libs_def)

lemma toy_tojson_null: "yaml_YAMLToJSON toy_libs ''null\<newline>'' = Returned (Inr ''null'')"
  by (simp add: toy_libs_def ends_with_def)



lemma toy_engine_none: "spec_engine toy_libs schema_none = LegacyEngine"
  by (simp add: spec_engine_def declared_dialect_def legacy_paths_def schema_none_def toy_defs)

lemmas single_defs = ValidateAgainstSingleSchema_def ValidateAgainstSingleSchema_body_def
  validateUsingNewValidator_def io_bind_def io_return_def lib_call_def schema_url_def Let_def

lemma toy_parent_fails:
  \<open>ValidateAgainstSingleSchema toy_libs example_values schema_none =
     ([YamlMarshal example_values, YamlToJSON ''{"c1":{},"c2":null}\<newline>'',
       GjsValidate schema_none ''{"c1":{},"c2":null}''], Returned (Some not_violation))\<close>
  by (simp add: single_defs toy_defs schema_none_def example_values_def not_violation_def)

lemma toy_c1_fails:
  "ValidateAgainstSingleSchema toy_libs (GoMap []) schema_none =
     ([YamlMarshal (GoMap []), YamlToJSON ''{}\<newline>'', GjsValidate schema_none ''{}''],
      Returned (Some not_violation))"
  by (simp add: single_defs toy_defs schema_none_def not_violation_def)

lemma toy_c2_passes:
  "ValidateAgainstSingleSchema toy_libs NilMap schema_any =
     ([YamlMarshal NilMap, YamlToJSON ''null\<newline>'', GjsValidate schema_any ''{}''],
      Returned None)"
  by (simp add: single_defs toy_defs schema_any_def)

lemma example_aligned: "aligned example_tree example_values"
  by (simp add: example_tree_def example_values_def)

lemma example_failing:
  "failing toy_libs example_tree example_values = [(''parent'', not_violation), (''c1'', not_violation)]"
  by (simp add: example_tree_def own_failing_def own_error_def toy_parent_fails
      toy_c1_fails toy_c2_passes)
    (simp add: example_values_def toy_c1_fails toy_c2_passes)

lemma example_calls:
  \<open>tree_calls toy_libs example_tree example_values =
     [YamlMarshal example_values, YamlToJSON ''{"c1":{},"c2":null}\<newline>'',
      GjsValidate schema_none ''{"c1":{},"c2":null}'',
      YamlMarshal (GoMap []), YamlToJSON ''{}\<newline>'', GjsValidate schema_none ''{}'',
      YamlMarshal NilMap, YamlToJSON ''null\<newline>'', GjsValidate schema_any ''{}'']\<close>
  by (simp add: example_tree_def own_calls_def toy_parent_fails)
    (simp add: example_values_def toy_c1_fails toy_c2_passes)

lemma toy_engine_object: "spec_engine toy_libs schema_object = LegacyEngine"
  by (simp add: spec_engine_def declared_dialect_def legacy_paths_def schema_object_def toy_defs)

lemma toy_object_accepts_empty:
  "gjs_Validate toy_libs schema_object ''{}'' = Returned (Inr \<lparr>Valid = True, Errors = []\<rparr>)"
  by (simp add: schema_object_def toy_defs)

lemma toy_object_rejects_null:
  "gjs_Validate toy_libs schema_object ''null'' =
     Returned (Inr \<lparr>Valid = False,
       Errors = [''(root): Invalid type. Expected: object, given: null'']\<rparr>)"
  by (simp add: schema_object_def toy_defs)

lemma toy_panicking_modern:
  "yaml_Marshal toy_panicking NilMap = Returned (Inr ''null\<newline>'') \<and>
   yaml_YAMLToJSON toy_panicking ''null\<newline>'' = Returned (Inr ''null'') \<and>
   spec_engine toy_panicking schema_2020_any = ModernEngine \<and>
   nv_UnmarshalJSON toy_panicking schema_2020_any = Returned (Inr schema_2020_any) \<and>
   nv_UnmarshalJSON toy_panicking (canonical ''null'') = Returned (Inr ''{}'') \<and>
   nv_AddResource toy_panicking (nv_NewCompiler toy_panicking) schema_url schema_2020_any
     = Returned (Inr [(schema_url, schema_2020_any)]) \<and>
   nv_Compile toy_panicking [(schema_url, schema_2020_any)] schema_url = Returned (Inr schema_2020_any) \<and>
   nv_Validate toy_panicking schema_2020_any ''{}'' = Panicked (LibPanic ''runtime error: index out of range'')"
  by (simp add: toy_panicking_def spec_engine_def declared_dialect_def legacy_paths_def
      schema_2020_any_def canonical_def toy_defs)

lemma toy_panicking_legacy:
  "yaml_Marshal toy_panicking NilMap = Returned (Inr ''null\<newline>'') \<and>
   yaml_YAMLToJSON toy_panicking ''null\<newline>'' = Returned (Inr ''null'') \<and>
   spec_engine toy_panicking schema_any = LegacyEngine \<and>
   gjs_Validate toy_panicking schema_any (canonical ''null'') =
     Panicked (LibPanic ''runtime error: invalid memory address or nil pointer dereference'')"
  by (simp add: toy_panicking_def spec_engine_def declared_dialect_def legacy_paths_def
      schema_any_def canonical_def toy_defs)

lemma toy_none_rejects_empty:
  "yaml_Marshal toy_libs (GoMap []) = Returned (Inr ''{}\<newline>'') \<and>
   yaml_YAMLToJSON toy_libs ''{}\<newline>'' = Returned (Inr ''{}'') \<and>
   spec_engine toy_libs schema_none = LegacyEngine \<and>
   gjs_Validate toy_libs schema_none (canonical ''{}'') =
     Returned (Inr \<lparr>Valid = False, Errors = [''(root): Must not validate the schema (not)'']\<rparr>) \<and>
   \<not> Valid \<lparr>Valid = False, Errors = [''(root): Must not validate the schema (not)'']\<rparr>"
  by (simp add: toy_engine_none) (simp add: schema_none_def canonical_def toy_defs)

lemma toy_none_rejects_example:
  \<open>yaml_Marshal toy_libs example_values = Returned (Inr ''{"c1":{},"c2":null}\<newline>'') \<and>
   yaml_YAMLToJSON toy_libs ''{"c1":{},"c2":null}\<newline>'' = Returned (Inr ''{"c1":{},"c2":null}'') \<and>
   spec_engine toy_libs schema_none = LegacyEngine \<and>
   gjs_Validate toy_libs schema_none (canonical ''{"c1":{},"c2":null}'') =
     Returned (Inr \<lparr>Valid = False, Errors = [''(root): Must not validate the schema (not)'']\<rparr>) \<and>
   \<not> Valid \<lparr>Valid = False, Errors = [''(root): Must not validate the schema (not)'']\<rparr>\<close>
  by (simp add: toy_engine_none) (simp add: schema_none_def canonical_def example_values_def toy_defs)

lemma example_deps_failing:
  "deps_failing toy_libs [Chart ''c1'' (Some schema_none) [], Chart ''c2'' (Some schema_any) []]
     example_values = [(''c1'', not_violation)]"
  by (simp add: deps_failing_def own_failing_def own_error_def)
    (simp add: example_values_def toy_c1_fails toy_c2_passes)

lemma toy_engine_2020_bad:
  "spec_engine toy_libs schema_2020_bad = ModernEngine"
  by (simp add: spec_engine_def declared_dialect_def legacy_paths_def schema_2020_bad_def toy_defs)

lemma toy_unregistered_conv:
  "yaml_Marshal toy_unregistered NilMap = Returned (Inr ''null\<newline>'')"
  "yaml_YAMLToJSON toy_unregistered ''null\<newline>'' = Returned (Inr ''null'')"
  "spec_engine toy_unregistered schema_2020_bad = ModernEngine"
  by (simp_all add: toy_unregistered_def spec_engine_def declared_dialect_def legacy_paths_def
      schema_2020_bad_def toy_defs)

lemma toy_strict_conv:
  "yaml_Marshal toy_strict NilMap = Returned (Inr ''null\<newline>'')"
  "yaml_YAMLToJSON toy_strict ''null\<newline>'' = Returned (Inr ''null'')"
  "spec_engine toy_strict schema_2020_bad = ModernEngine"
  by (simp_all add: toy_strict_def spec_engine_def declared_dialect_def legacy_paths_def
      schema_2020_bad_def toy_defs)

lemma toy_strict_bad:
  "nv_UnmarshalJSON toy_strict schema_2020_bad = Returned (Inl json_SyntaxError)"
  by (simp add: toy_strict_def)

lemma toy_compile_bad:
  "nv_UnmarshalJSON toy_libs schema_2020_bad = Returned (Inr schema_2020_bad) \<and>
   nv_UnmarshalJSON toy_libs (canonical ''null'') = Returned (Inr ''{}'') \<and>
   nv_AddResource toy_libs (nv_NewCompiler toy_libs) schema_url schema_2020_bad =
     Returned (Inr [(schema_url, schema_2020_bad)]) \<and>
   nv_Compile toy_libs [(schema_url, schema_2020_bad)] schema_url =
     Returned (Inl (GoError ''*jsonschema.SchemaValidationError'' ''metaschema validation failed''))"
  by (simp add: schema_2020_bad_def canonical_def toy_defs)

lemma toy_register_bad:
  "nv_UnmarshalJSON toy_unregistered schema_2020_bad = Returned (Inr schema_2020_bad) \<and>
   nv_UnmarshalJSON toy_unregistered (canonical ''null'') = Returned (Inr ''{}'') \<and>
   nv_AddResource toy_unregistered (nv_NewCompiler toy_unregistered) schema_url schema_2020_bad =
     Returned (Inl (GoError ''*jsonschema.ResourceExistsError'' ''resource already exists''))"
  by (simp add: toy_unregistered_def schema_2020_bad_def canonical_def toy_defs)

lemma toy_not_json:
  "json_Unmarshal toy_libs not_json \<lparr>Schema' = []\<rparr> = (Some json_SyntaxError, \<lparr>Schema' = []\<rparr>)"
  by (simp add: not_json_def toy_libs_def toy_json_Unmarshal_def starts_with_def)

lemma toy_c1_walk:
  "ValidateAgainstSchema toy_libs (Chart ''c1'' (Some schema_none) []) (GoMap []) =
     ([YamlMarshal (GoMap []), YamlToJSON ''{}\<newline>'', GjsValidate schema_none ''{}''],
      Returned (Some (errors_New ''c1:\<newline>- (root): Must not validate the schema (not)\<newline>'')))"
  by (simp add: toy_c1_fails io_return_def not_violation_def)

lemma toy_bad_check:
  "snd (ValidateAgainstSingleSchema toy_libs NilMap schema_2020_bad) =
     Returned (Some (GoError ''*jsonschema.SchemaValidationError'' ''metaschema validation failed''))"
  by (simp add: single_defs toy_defs schema_2020_bad_def)

section \<open>The claims\<close>



text \<open>
  C2, as the code has it. On a bundle tree whose values bind the name of every child
  to a map, at every level, the walk never stops early: the calls it makes are those
  of the parent's own check followed by those of each child's subtree, in the order of
  the children, and it returns the report of the failing nodes in this order, one
  section for each node whose own check returned an error and nothing for the others
  (success when there is none). The example of the specification, a violated parent
  with a violated first child and a satisfied second child, gives two sections, the
  parent's and then the first child's, and all three nodes are checked. Not on every
  tree: on \<open>broken_tree\<close> the parent's check fails, the type assertion on the values of
  the first child panics, the second child is never checked and no report is
  returned.
\<close>

theorem no_short_circuit:
  assumes "aligned c v"
  shows "ValidateAgainstSchema L c v = (tree_calls L c v, Returned (report (failing L c v)))"
  using assms by (rule walk_aligned(1))

theorem no_short_circuit_counterexample:
  \<open>snd (ValidateAgainstSingleSchema toy_libs broken_values schema_none) = Returned (Some not_violation)
   \<and> ValidateAgainstSchema toy_libs broken_tree broken_values =
       ([YamlMarshal broken_values, YamlToJSON ''{"b":{}}\<newline>'',
         GjsValidate schema_none ''{"b":{}}''],
        Panicked (TypeAssertionError ''nil''))\<close>
  by (simp add: broken_tree_def broken_values_def single_defs toy_defs schema_none_def
      not_violation_def)

theorem no_short_circuit_witness:
  \<open>aligned example_tree example_values
   \<and> failing toy_libs example_tree example_values = [(''parent'', not_violation), (''c1'', not_violation)]
   \<and> ValidateAgainstSchema toy_libs example_tree example_values =
       ([YamlMarshal example_values, YamlToJSON ''{"c1":{},"c2":null}\<newline>'',
         GjsValidate schema_none ''{"c1":{},"c2":null}'',
         YamlMarshal (GoMap []), YamlToJSON ''{}\<newline>'', GjsValidate schema_none ''{}'',
         YamlMarshal NilMap, YamlToJSON ''null\<newline>'', GjsValidate schema_any ''{}''],
        Returned (Some (errors_New
          ''parent:\<newline>- (root): Must not validate the schema (not)\<newline>c1:\<newline>- (root): Must not validate the schema (not)\<newline>'')))\<close>
  using no_short_circuit [OF example_aligned, of toy_libs]
  by (simp add: example_aligned example_failing example_calls report_def not_violation_def)

text \<open>
  C3, as the code has it. When a child bundle's name is missing from the values of its
  parent, or bound to anything but a map, the type assertion on the child's values
  panics with a \<^verbatim>\<open>*runtime.TypeAssertionError\<close>. Nothing in \<^verbatim>\<open>ValidateAgainstSchema\<close>
  recovers it: the call does not return, so the mismatch is neither an error value nor
  a part of the report. The claim's error that is distinct from a crash does not
  exist: on a parent without schema, with a child \<^verbatim>\<open>db\<close> and empty values, the walk
  ends in that panic.
\<close>

theorem structural_mismatch_panics:
  assumes "\<not> aligned c v"
  shows "\<exists>t dyn. ValidateAgainstSchema L c v = (t, Panicked (TypeAssertionError dyn))"
  using assms by (rule walk_misaligned(1))

theorem structural_mismatch_counterexample:
  "snd (ValidateAgainstSchema toy_libs (Chart ''app'' None [Chart ''db'' None []]) (GoMap []))
     = Panicked (TypeAssertionError ''nil'')"
  by (simp add: io_return_def)

theorem structural_mismatch_panics_witness:
  \<open>\<not> aligned (Chart ''app'' None [Chart ''db'' None [Chart ''cache'' (Some schema_none) []]])
       (GoMap [(''db'', VMap (GoMap [(''cache'', VScalar ''string'' ''"redis"'')]))])
   \<and> (\<exists>t dyn.
        ValidateAgainstSchema toy_libs
          (Chart ''app'' None [Chart ''db'' None [Chart ''cache'' (Some schema_none) []]])
          (GoMap [(''db'', VMap (GoMap [(''cache'', VScalar ''string'' ''"redis"'')]))])
        = (t, Panicked (TypeAssertionError dyn)))\<close>
  using structural_mismatch_panics
    [of "Chart ''app'' None [Chart ''db'' None [Chart ''cache'' (Some schema_none) []]]"
        "GoMap [(''db'', VMap (GoMap [(''cache'', VScalar ''string'' [CHR 0x22, CHR ''r'', CHR ''e'', CHR ''d'', CHR ''i'', CHR ''s'', CHR 0x22])]))]"
        toy_libs]
  by simp

text \<open>
  C4, as the code has it. On a tree without any schema whose values bind every child's
  name to a map, the walk returns success and calls no library, whatever else the
  values hold. The values matter all the same: on a tree without schema whose child
  \<^verbatim>\<open>db\<close> is bound to a string, the walk panics instead of returning success.
\<close>

theorem schemaless_succeeds:
  assumes "schemaless c" and "aligned c v"
  shows "ValidateAgainstSchema L c v = ([], Returned None)"
  using walk_aligned(1) [OF assms(2), of L] schemaless_quiet [OF assms(1), of L v]
  by (simp add: report_def)

theorem schemaless_counterexample:
  \<open>snd (ValidateAgainstSchema toy_libs (Chart ''app'' None [Chart ''db'' None []])
          (GoMap [(''db'', VScalar ''string'' ''"x"'')]))
     = Panicked (TypeAssertionError ''string'')\<close>
  by (simp add: io_return_def)

theorem schemaless_succeeds_witness:
  "schemaless (Chart ''app'' None [Chart ''db'' None []])
   \<and> aligned (Chart ''app'' None [Chart ''db'' None []])
       (GoMap [(''db'', VMap (GoMap [(''port'', VScalar ''int64'' ''5432'')])), (''extra'', VSeq [VNil])])
   \<and> ValidateAgainstSchema toy_libs (Chart ''app'' None [Chart ''db'' None []])
       (GoMap [(''db'', VMap (GoMap [(''port'', VScalar ''int64'' ''5432'')])), (''extra'', VSeq [VNil])])
     = ([], Returned None)"
  using schemaless_succeeds
    [of "Chart ''app'' None [Chart ''db'' None []]"
        "GoMap [(''db'', VMap (GoMap [(''port'', VScalar ''int64'' ''5432'')])), (''extra'', VSeq [VNil])]"
        toy_libs]
  by simp

text \<open>
  C5. When the values of a node serialise to the document \<^verbatim>\<open>null\<close>, the check is the
  check of the document \<^verbatim>\<open>{}\<close>: it is equal, calls and result, to the check with a
  conversion that yields \<^verbatim>\<open>{}\<close> for these values. Under the legacy rule the engine is
  called on the schema and \<^verbatim>\<open>{}\<close>, and when it finds \<^verbatim>\<open>{}\<close> valid the check succeeds;
  so does a nil values map against a schema that only asks for an object.
\<close>

theorem null_document_is_empty_object:
  assumes "yaml_Marshal L vals = Returned (Inr y)" and "yaml_YAMLToJSON L y = Returned (Inr ''null'')"
  shows "ValidateAgainstSingleSchema L vals s =
           ValidateAgainstSingleSchema
             (L\<lparr>yaml_YAMLToJSON := (yaml_YAMLToJSON L)(y := Returned (Inr ''{}''))\<rparr>) vals s
       \<and> (spec_engine L s = LegacyEngine \<longrightarrow>
            fst (ValidateAgainstSingleSchema L vals s) =
              [YamlMarshal vals, YamlToJSON y, GjsValidate s ''{}''])
       \<and> (spec_engine L s = LegacyEngine \<and> gjs_Validate L s ''{}'' = Returned (Inr r) \<and> Valid r \<longrightarrow>
            snd (ValidateAgainstSingleSchema L vals s) = Returned None)"
proof -
  let ?L = "L\<lparr>yaml_YAMLToJSON := (yaml_YAMLToJSON L)(y := Returned (Inr ''{}''))\<rparr>"
  have b: "ValidateAgainstSingleSchema_body L vals s =
        (YamlMarshal vals # YamlToJSON y # fst (dispatch L ''{}'' s), snd (dispatch L ''{}'' s))"
    using body_converted [OF assms, of s] by (simp add: canonical_def)
  have m': "yaml_Marshal ?L vals = Returned (Inr y)" using assms(1) by simp
  have n': "yaml_YAMLToJSON ?L y = Returned (Inr ''{}'')" by simp
  have b': "ValidateAgainstSingleSchema_body ?L vals s =
        (YamlMarshal vals # YamlToJSON y # fst (dispatch L ''{}'' s), snd (dispatch L ''{}'' s))"
    using body_converted [OF m' n', of s] by (simp add: canonical_def)
  have 1: "ValidateAgainstSingleSchema L vals s = ValidateAgainstSingleSchema ?L vals s"
    by (simp add: recovered b b')
  have 2: "spec_engine L s = LegacyEngine \<longrightarrow>
            fst (ValidateAgainstSingleSchema L vals s) =
              [YamlMarshal vals, YamlToJSON y, GjsValidate s ''{}'']"
    by (simp add: recovered b dispatch_legacy)
  have 3: "spec_engine L s = LegacyEngine \<and> gjs_Validate L s ''{}'' = Returned (Inr r) \<and> Valid r \<longrightarrow>
            snd (ValidateAgainstSingleSchema L vals s) = Returned None"
    by (simp add: recovered b dispatch_legacy)
  from 1 2 3 show ?thesis by blast
qed

theorem null_document_is_empty_object_witness:
  "ValidateAgainstSingleSchema toy_libs NilMap schema_object =
     ([YamlMarshal NilMap, YamlToJSON ''null\<newline>'', GjsValidate schema_object ''{}''],
      Returned None)"
proof -
  note t = null_document_is_empty_object [OF toy_marshal_nil toy_tojson_null,
      of schema_object "\<lparr>Valid = True, Errors = []\<rparr>"]
  from t toy_engine_object
  have 1: "fst (ValidateAgainstSingleSchema toy_libs NilMap schema_object) =
      [YamlMarshal NilMap, YamlToJSON ''null\<newline>'', GjsValidate schema_object ''{}'']"
    by blast
  from t [THEN conjunct2, THEN conjunct2] toy_engine_object toy_object_accepts_empty
  have 2: "snd (ValidateAgainstSingleSchema toy_libs NilMap schema_object) = Returned None"
    by simp
  from 1 2 show ?thesis by (simp add: prod_eq_iff)
qed

text \<open>
  C6. \<^verbatim>\<open>ValidateAgainstSingleSchema\<close> always returns. When its body panics with a
  value \<open>r\<close>, it returns the error \<^verbatim>\<open>unable to validate schema: \<close> followed by what
  \<^verbatim>\<open>%s\<close> prints for \<open>r\<close>; so it does when the legacy engine panics in
  \<^verbatim>\<open>gojsonschema.Validate\<close>, and when the modern engine panics in \<^verbatim>\<open>Validate\<close>.
\<close>

theorem panic_recovered:
  "(\<exists>e. snd (ValidateAgainstSingleSchema L vals s) = Returned e)
   \<and> (\<forall>r. snd (ValidateAgainstSingleSchema_body L vals s) = Panicked r \<longrightarrow>
         snd (ValidateAgainstSingleSchema L vals s) =
           Returned (Some (fmt_Errorf (''unable to validate schema: '' @ fmt_s r))))
   \<and> (\<forall>y j r. yaml_Marshal L vals = Returned (Inr y) \<and> yaml_YAMLToJSON L y = Returned (Inr j) \<and>
         spec_engine L s = LegacyEngine \<and> gjs_Validate L s (canonical j) = Panicked r \<longrightarrow>
         snd (ValidateAgainstSingleSchema L vals s) =
           Returned (Some (fmt_Errorf (''unable to validate schema: '' @ fmt_s r))))
   \<and> (\<forall>y j ds dv c v r. yaml_Marshal L vals = Returned (Inr y) \<and> yaml_YAMLToJSON L y = Returned (Inr j) \<and>
         spec_engine L s = ModernEngine \<and>
         nv_UnmarshalJSON L s = Returned (Inr ds) \<and>
         nv_UnmarshalJSON L (canonical j) = Returned (Inr dv) \<and>
         nv_AddResource L (nv_NewCompiler L) schema_url ds = Returned (Inr c) \<and>
         nv_Compile L c schema_url = Returned (Inr v) \<and>
         nv_Validate L v dv = Panicked r \<longrightarrow>
         snd (ValidateAgainstSingleSchema L vals s) =
           Returned (Some (fmt_Errorf (''unable to validate schema: '' @ fmt_s r))))"
proof (intro conjI allI impI)
  show "\<exists>e. snd (ValidateAgainstSingleSchema L vals s) = Returned e"
    by (rule single_returns)
next
  fix r
  assume "snd (ValidateAgainstSingleSchema_body L vals s) = Panicked r"
  then show "snd (ValidateAgainstSingleSchema L vals s) =
           Returned (Some (fmt_Errorf (''unable to validate schema: '' @ fmt_s r)))"
    by (simp add: recovered)
next
  fix y j r
  assume a: "yaml_Marshal L vals = Returned (Inr y) \<and> yaml_YAMLToJSON L y = Returned (Inr j) \<and>
         spec_engine L s = LegacyEngine \<and> gjs_Validate L s (canonical j) = Panicked r"
  then have "snd (ValidateAgainstSingleSchema_body L vals s) = Panicked r"
    by (simp add: body_converted dispatch_legacy)
  then show "snd (ValidateAgainstSingleSchema L vals s) =
           Returned (Some (fmt_Errorf (''unable to validate schema: '' @ fmt_s r)))"
    by (simp add: recovered)
next
  fix y j ds dv c v r
  assume a: "yaml_Marshal L vals = Returned (Inr y) \<and> yaml_YAMLToJSON L y = Returned (Inr j) \<and>
         spec_engine L s = ModernEngine \<and>
         nv_UnmarshalJSON L s = Returned (Inr ds) \<and>
         nv_UnmarshalJSON L (canonical j) = Returned (Inr dv) \<and>
         nv_AddResource L (nv_NewCompiler L) schema_url ds = Returned (Inr c) \<and>
         nv_Compile L c schema_url = Returned (Inr v) \<and>
         nv_Validate L v dv = Panicked r"
  then have "validateUsingNewValidator L (canonical j) s =
           ([NvUnmarshalJSON s, NvUnmarshalJSON (canonical j), NvAddResource schema_url,
             NvCompile schema_url, NvValidate], Panicked r)"
    using modern_validates [of L s ds "canonical j" dv c v] by simp
  with a have "snd (ValidateAgainstSingleSchema_body L vals s) = Panicked r"
    by (simp add: body_converted dispatch_def)
  then show "snd (ValidateAgainstSingleSchema L vals s) =
           Returned (Some (fmt_Errorf (''unable to validate schema: '' @ fmt_s r)))"
    by (simp add: recovered)
qed

theorem panic_recovered_witness:
  "snd (ValidateAgainstSingleSchema toy_panicking NilMap schema_2020_any) =
     Returned (Some (GoError ''*errors.errorString''
       ''unable to validate schema: runtime error: index out of range''))
   \<and> snd (ValidateAgainstSingleSchema toy_panicking NilMap schema_any) =
     Returned (Some (GoError ''*errors.errorString''
       ''unable to validate schema: runtime error: invalid memory address or nil pointer dereference''))"
proof -
  from panic_recovered [of toy_panicking NilMap schema_2020_any] toy_panicking_modern
  have "snd (ValidateAgainstSingleSchema toy_panicking NilMap schema_2020_any) =
     Returned (Some (fmt_Errorf (''unable to validate schema: '' @
       fmt_s (LibPanic ''runtime error: index out of range''))))"
    by blast
  moreover
  from panic_recovered [of toy_panicking NilMap schema_any] toy_panicking_legacy
  have "snd (ValidateAgainstSingleSchema toy_panicking NilMap schema_any) =
     Returned (Some (fmt_Errorf (''unable to validate schema: '' @
       fmt_s (LibPanic ''runtime error: invalid memory address or nil pointer dereference''))))"
    by blast
  ultimately show ?thesis by (simp add: fmt_Errorf_def)
qed

text \<open>
  C7. The walk returns an error exactly when the values satisfy the invariant and some
  node fails, and the error is then the text made, in the order of the traversal, of
  one block for each failing node: the name of the bundle, a colon, a newline, and the
  text of the node's error. When the legacy engine finds the values of a node invalid,
  the text of the node's error is one line for each violation, the violation after
  \<^verbatim>\<open>- \<close>, and the walk returns these lines under the name of the node, followed by
  the blocks of its children.
\<close>

theorem report_text_shape:
  "(snd (ValidateAgainstSchema L c v) = Returned (Some e) \<longleftrightarrow>
      aligned c v \<and> failing L c v \<noteq> [] \<and>
      e = errors_New (concat (map (\<lambda>(n, err). n @ '':\<newline>'' @ Error err) (failing L c v))))
   \<and> (yaml_Marshal L vals = Returned (Inr y) \<and> yaml_YAMLToJSON L y = Returned (Inr j) \<and>
       spec_engine L s = LegacyEngine \<and> gjs_Validate L s (canonical j) = Returned (Inr r) \<and>
       \<not> Valid r \<longrightarrow>
         snd (ValidateAgainstSingleSchema L vals s) =
           Returned (Some (errors_New (concat (map (\<lambda>desc. ''- '' @ desc @ ''\<newline>'') (Errors r))))))
   \<and> (aligned (Chart n (Some s) ds) vals \<and>
       yaml_Marshal L vals = Returned (Inr y) \<and> yaml_YAMLToJSON L y = Returned (Inr j) \<and>
       spec_engine L s = LegacyEngine \<and> gjs_Validate L s (canonical j) = Returned (Inr r) \<and>
       \<not> Valid r \<longrightarrow>
         snd (ValidateAgainstSchema L (Chart n (Some s) ds) vals) =
           Returned (Some (errors_New
             (n @ '':\<newline>'' @ concat (map (\<lambda>desc. ''- '' @ desc @ ''\<newline>'') (Errors r)) @
              concat (map (\<lambda>(n, err). n @ '':\<newline>'' @ Error err) (deps_failing L ds vals))))))"
proof -
  have 1: "snd (ValidateAgainstSchema L c v) = Returned (Some e) \<longleftrightarrow>
      aligned c v \<and> failing L c v \<noteq> [] \<and>
      e = errors_New (concat (map (\<lambda>(n, err). n @ '':\<newline>'' @ Error err) (failing L c v)))"
  proof
    assume a: "snd (ValidateAgainstSchema L c v) = Returned (Some e)"
    have al: "aligned c v" using a by (rule walk_returns_aligned)
    from walk_aligned(1) [OF al, of L] a
    have "report (failing L c v) = Some e" by simp
    with al show "aligned c v \<and> failing L c v \<noteq> [] \<and>
      e = errors_New (concat (map (\<lambda>(n, err). n @ '':\<newline>'' @ Error err) (failing L c v)))"
      unfolding block_fun by (auto simp: report_def split: if_splits)
  next
    assume b: "aligned c v \<and> failing L c v \<noteq> [] \<and>
      e = errors_New (concat (map (\<lambda>(n, err). n @ '':\<newline>'' @ Error err) (failing L c v)))"
    then have al: "aligned c v" by blast
    from walk_aligned(1) [OF al, of L]
    have "snd (ValidateAgainstSchema L c v) = Returned (report (failing L c v))"
      by (simp only: snd_conv)
    with b show "snd (ValidateAgainstSchema L c v) = Returned (Some e)"
      unfolding block_fun by (simp add: report_def)
  qed
  have 2: "yaml_Marshal L vals = Returned (Inr y) \<and> yaml_YAMLToJSON L y = Returned (Inr j) \<and>
       spec_engine L s = LegacyEngine \<and> gjs_Validate L s (canonical j) = Returned (Inr r) \<and>
       \<not> Valid r \<longrightarrow>
         snd (ValidateAgainstSingleSchema L vals s) =
           Returned (Some (errors_New (concat (map (\<lambda>desc. ''- '' @ desc @ ''\<newline>'') (Errors r)))))"
    by (simp add: recovered body_converted dispatch_legacy bullet_def [abs_def])
  have 3: "aligned (Chart n (Some s) ds) vals \<and>
       yaml_Marshal L vals = Returned (Inr y) \<and> yaml_YAMLToJSON L y = Returned (Inr j) \<and>
       spec_engine L s = LegacyEngine \<and> gjs_Validate L s (canonical j) = Returned (Inr r) \<and>
       \<not> Valid r \<longrightarrow>
         snd (ValidateAgainstSchema L (Chart n (Some s) ds) vals) =
           Returned (Some (errors_New
             (n @ '':\<newline>'' @ concat (map (\<lambda>desc. ''- '' @ desc @ ''\<newline>'') (Errors r)) @
              concat (map (\<lambda>(n, err). n @ '':\<newline>'' @ Error err) (deps_failing L ds vals)))))"
  proof
    assume h: "aligned (Chart n (Some s) ds) vals \<and>
       yaml_Marshal L vals = Returned (Inr y) \<and> yaml_YAMLToJSON L y = Returned (Inr j) \<and>
       spec_engine L s = LegacyEngine \<and> gjs_Validate L s (canonical j) = Returned (Inr r) \<and>
       \<not> Valid r"
    then have al: "aligned (Chart n (Some s) ds) vals" by blast
    from h 2 have se: "snd (ValidateAgainstSingleSchema L vals s) =
           Returned (Some (errors_New (concat (map (\<lambda>desc. ''- '' @ desc @ ''\<newline>'') (Errors r)))))"
      by blast
    have f: "failing L (Chart n (Some s) ds) vals =
        (n, errors_New (concat (map (\<lambda>desc. ''- '' @ desc @ ''\<newline>'') (Errors r)))) #
        deps_failing L ds vals"
      using se by (simp add: own_failing_def own_error_def deps_failing_def)
    have "snd (ValidateAgainstSchema L (Chart n (Some s) ds) vals) =
          Returned (report (failing L (Chart n (Some s) ds) vals))"
      using walk_aligned(1) [OF al, of L] by (simp only: snd_conv)
    then have "snd (ValidateAgainstSchema L (Chart n (Some s) ds) vals) =
          Returned (report ((n, errors_New (concat (map (\<lambda>desc. ''- '' @ desc @ ''\<newline>'') (Errors r)))) #
            deps_failing L ds vals))"
      by (simp only: f)
    then show "snd (ValidateAgainstSchema L (Chart n (Some s) ds) vals) =
           Returned (Some (errors_New
             (n @ '':\<newline>'' @ concat (map (\<lambda>desc. ''- '' @ desc @ ''\<newline>'') (Errors r)) @
              concat (map (\<lambda>(n, err). n @ '':\<newline>'' @ Error err) (deps_failing L ds vals)))))"
      unfolding block_fun by (simp add: report_def)
  qed
  from 1 2 3 show ?thesis by blast
qed

theorem report_text_shape_witness:
  "snd (ValidateAgainstSchema toy_libs example_tree example_values) =
     Returned (Some (errors_New
       ''parent:\<newline>- (root): Must not validate the schema (not)\<newline>c1:\<newline>- (root): Must not validate the schema (not)\<newline>''))
   \<and> snd (ValidateAgainstSingleSchema toy_libs (GoMap []) schema_none) =
       Returned (Some (errors_New ''- (root): Must not validate the schema (not)\<newline>''))
   \<and> snd (ValidateAgainstSchema toy_libs
           (Chart ''parent'' (Some schema_none)
              [Chart ''c1'' (Some schema_none) [], Chart ''c2'' (Some schema_any) []])
           example_values) =
       Returned (Some (errors_New
         (''parent:\<newline>- (root): Must not validate the schema (not)\<newline>'' @
          ''c1:\<newline>- (root): Must not validate the schema (not)\<newline>'')))"
proof -
  let ?e = "errors_New (concat (map (\<lambda>(n, err). n @ '':\<newline>'' @ Error err)
              (failing toy_libs example_tree example_values)))"
  from report_text_shape [where L = toy_libs and c = example_tree and v = example_values and e = ?e]
    example_aligned example_failing
  have "snd (ValidateAgainstSchema toy_libs example_tree example_values) = Returned (Some ?e)"
    by simp
  then have 1: "snd (ValidateAgainstSchema toy_libs example_tree example_values) =
     Returned (Some (errors_New
       ''parent:\<newline>- (root): Must not validate the schema (not)\<newline>c1:\<newline>- (root): Must not validate the schema (not)\<newline>''))"
    by (simp add: example_failing not_violation_def)
  from report_text_shape [where L = toy_libs and vals = "GoMap []" and y = "''{}\<newline>''"
      and j = "''{}''" and s = schema_none
      and r = "\<lparr>Valid = False, Errors = [''(root): Must not validate the schema (not)'']\<rparr>"]
    toy_none_rejects_empty
  have "snd (ValidateAgainstSingleSchema toy_libs (GoMap []) schema_none) =
       Returned (Some (errors_New (concat (map (\<lambda>desc. ''- '' @ desc @ ''\<newline>'')
         (Errors \<lparr>Valid = False, Errors = [''(root): Must not validate the schema (not)'']\<rparr>)))))"
    by blast
  then have 2: "snd (ValidateAgainstSingleSchema toy_libs (GoMap []) schema_none) =
       Returned (Some (errors_New ''- (root): Must not validate the schema (not)\<newline>''))"
    by simp
  have al: "aligned (Chart ''parent'' (Some schema_none)
              [Chart ''c1'' (Some schema_none) [], Chart ''c2'' (Some schema_any) []]) example_values"
    using example_aligned by (simp add: example_tree_def)
  from report_text_shape [where L = toy_libs and n = "''parent''" and s = schema_none
      and ds = "[Chart ''c1'' (Some schema_none) [], Chart ''c2'' (Some schema_any) []]"
      and vals = example_values and y = "[CHR ''{'', CHR 0x22, CHR ''c'', CHR ''1'', CHR 0x22, CHR '':'', CHR ''{'', CHR ''}'', CHR '','', CHR 0x22, CHR ''c'', CHR ''2'', CHR 0x22, CHR '':'', CHR ''n'', CHR ''u'', CHR ''l'', CHR ''l'', CHR ''}'', CHR ''\<newline>'']"
      and j = "[CHR ''{'', CHR 0x22, CHR ''c'', CHR ''1'', CHR 0x22, CHR '':'', CHR ''{'', CHR ''}'', CHR '','', CHR 0x22, CHR ''c'', CHR ''2'', CHR 0x22, CHR '':'', CHR ''n'', CHR ''u'', CHR ''l'', CHR ''l'', CHR ''}'']"
      and r = "\<lparr>Valid = False, Errors = [''(root): Must not validate the schema (not)'']\<rparr>"]
    al toy_none_rejects_example
  have "snd (ValidateAgainstSchema toy_libs
           (Chart ''parent'' (Some schema_none)
              [Chart ''c1'' (Some schema_none) [], Chart ''c2'' (Some schema_any) []])
           example_values) =
       Returned (Some (errors_New
         (''parent'' @ '':\<newline>'' @ concat (map (\<lambda>desc. ''- '' @ desc @ ''\<newline>'')
            (Errors \<lparr>Valid = False, Errors = [''(root): Must not validate the schema (not)'']\<rparr>)) @
          concat (map (\<lambda>(n, err). n @ '':\<newline>'' @ Error err)
            (deps_failing toy_libs [Chart ''c1'' (Some schema_none) [], Chart ''c2'' (Some schema_any) []]
               example_values)))))"
    by blast
  then have 3: "snd (ValidateAgainstSchema toy_libs
           (Chart ''parent'' (Some schema_none)
              [Chart ''c1'' (Some schema_none) [], Chart ''c2'' (Some schema_any) []])
           example_values) =
       Returned (Some (errors_New
         (''parent:\<newline>- (root): Must not validate the schema (not)\<newline>'' @
          ''c1:\<newline>- (root): Must not validate the schema (not)\<newline>'')))"
    by (simp add: example_deps_failing not_violation_def)
  from 1 2 3 show ?thesis by blast
qed

text \<open>
  C8. Under the modern rule, when the modern engine fails to parse the schema, to
  register it or to compile it, the node's check returns the very error of that call
  at once: the recorded calls end with the failing call, the modern engine's
  \<^verbatim>\<open>Validate\<close> and the legacy engine are never called, and the schema is registered
  and then compiled under the one name \<^verbatim>\<open>file:///values.schema.json\<close>.
\<close>

theorem malformed_schema_is_returned:
  assumes "yaml_Marshal L vals = Returned (Inr y)" and "yaml_YAMLToJSON L y = Returned (Inr j)"
    and "spec_engine L s = ModernEngine"
  shows "(nv_UnmarshalJSON L s = Returned (Inl e) \<longrightarrow>
            ValidateAgainstSingleSchema L vals s =
              ([YamlMarshal vals, YamlToJSON y, NvUnmarshalJSON s], Returned (Some e)))
       \<and> (nv_UnmarshalJSON L s = Returned (Inr ds) \<and>
          nv_UnmarshalJSON L (canonical j) = Returned (Inr dv) \<and>
          nv_AddResource L (nv_NewCompiler L) schema_url ds = Returned (Inl e) \<longrightarrow>
            ValidateAgainstSingleSchema L vals s =
              ([YamlMarshal vals, YamlToJSON y, NvUnmarshalJSON s, NvUnmarshalJSON (canonical j),
                NvAddResource ''file:///values.schema.json''], Returned (Some e)))
       \<and> (nv_UnmarshalJSON L s = Returned (Inr ds) \<and>
          nv_UnmarshalJSON L (canonical j) = Returned (Inr dv) \<and>
          nv_AddResource L (nv_NewCompiler L) schema_url ds = Returned (Inr c) \<and>
          nv_Compile L c schema_url = Returned (Inl e) \<longrightarrow>
            ValidateAgainstSingleSchema L vals s =
              ([YamlMarshal vals, YamlToJSON y, NvUnmarshalJSON s, NvUnmarshalJSON (canonical j),
                NvAddResource ''file:///values.schema.json'',
                NvCompile ''file:///values.schema.json''], Returned (Some e)))"
proof (intro conjI impI)
  assume "nv_UnmarshalJSON L s = Returned (Inl e)"
  from modern_parse_fails [OF assms(3) this, of "canonical j"]
  show "ValidateAgainstSingleSchema L vals s =
              ([YamlMarshal vals, YamlToJSON y, NvUnmarshalJSON s], Returned (Some e))"
    by (simp add: recovered body_converted [OF assms(1,2)] dispatch_def)
next
  assume a: "nv_UnmarshalJSON L s = Returned (Inr ds) \<and>
          nv_UnmarshalJSON L (canonical j) = Returned (Inr dv) \<and>
          nv_AddResource L (nv_NewCompiler L) schema_url ds = Returned (Inl e)"
  then have "validateUsingNewValidator L (canonical j) s =
           ([NvUnmarshalJSON s, NvUnmarshalJSON (canonical j), NvAddResource schema_url],
            Returned (True, Some e))"
    using modern_register_fails [OF assms(3), of ds "canonical j" dv e] by simp
  then show "ValidateAgainstSingleSchema L vals s =
              ([YamlMarshal vals, YamlToJSON y, NvUnmarshalJSON s, NvUnmarshalJSON (canonical j),
                NvAddResource ''file:///values.schema.json''], Returned (Some e))"
    by (simp add: recovered body_converted [OF assms(1,2)] dispatch_def schema_url_def)
next
  assume a: "nv_UnmarshalJSON L s = Returned (Inr ds) \<and>
          nv_UnmarshalJSON L (canonical j) = Returned (Inr dv) \<and>
          nv_AddResource L (nv_NewCompiler L) schema_url ds = Returned (Inr c) \<and>
          nv_Compile L c schema_url = Returned (Inl e)"
  then have "validateUsingNewValidator L (canonical j) s =
           ([NvUnmarshalJSON s, NvUnmarshalJSON (canonical j), NvAddResource schema_url,
             NvCompile schema_url], Returned (True, Some e))"
    using modern_compile_fails [OF assms(3), of ds "canonical j" dv c e] by simp
  then show "ValidateAgainstSingleSchema L vals s =
              ([YamlMarshal vals, YamlToJSON y, NvUnmarshalJSON s, NvUnmarshalJSON (canonical j),
                NvAddResource ''file:///values.schema.json'',
                NvCompile ''file:///values.schema.json''], Returned (Some e))"
    by (simp add: recovered body_converted [OF assms(1,2)] dispatch_def schema_url_def)
qed

theorem malformed_schema_is_returned_witness:
  "ValidateAgainstSingleSchema toy_libs NilMap schema_2020_bad =
     ([YamlMarshal NilMap, YamlToJSON ''null\<newline>'', NvUnmarshalJSON schema_2020_bad,
       NvUnmarshalJSON ''{}'', NvAddResource ''file:///values.schema.json'',
       NvCompile ''file:///values.schema.json''],
      Returned (Some (GoError ''*jsonschema.SchemaValidationError'' ''metaschema validation failed'')))
   \<and> ValidateAgainstSingleSchema toy_unregistered NilMap schema_2020_bad =
     ([YamlMarshal NilMap, YamlToJSON ''null\<newline>'', NvUnmarshalJSON schema_2020_bad,
       NvUnmarshalJSON ''{}'', NvAddResource ''file:///values.schema.json''],
      Returned (Some (GoError ''*jsonschema.ResourceExistsError'' ''resource already exists'')))
   \<and> ValidateAgainstSingleSchema toy_strict NilMap schema_2020_bad =
     ([YamlMarshal NilMap, YamlToJSON ''null\<newline>'', NvUnmarshalJSON schema_2020_bad],
      Returned (Some json_SyntaxError))"
proof -
  from malformed_schema_is_returned [OF toy_marshal_nil toy_tojson_null toy_engine_2020_bad]
    toy_compile_bad
  have 1: "ValidateAgainstSingleSchema toy_libs NilMap schema_2020_bad =
     ([YamlMarshal NilMap, YamlToJSON ''null\<newline>'', NvUnmarshalJSON schema_2020_bad,
       NvUnmarshalJSON (canonical ''null''), NvAddResource ''file:///values.schema.json'',
       NvCompile ''file:///values.schema.json''],
      Returned (Some (GoError ''*jsonschema.SchemaValidationError'' ''metaschema validation failed'')))"
    by blast
  from malformed_schema_is_returned [OF toy_unregistered_conv] toy_register_bad
  have 2: "ValidateAgainstSingleSchema toy_unregistered NilMap schema_2020_bad =
     ([YamlMarshal NilMap, YamlToJSON ''null\<newline>'', NvUnmarshalJSON schema_2020_bad,
       NvUnmarshalJSON (canonical ''null''), NvAddResource ''file:///values.schema.json''],
      Returned (Some (GoError ''*jsonschema.ResourceExistsError'' ''resource already exists'')))"
    by blast
  from malformed_schema_is_returned [OF toy_strict_conv] toy_strict_bad
  have 3: "ValidateAgainstSingleSchema toy_strict NilMap schema_2020_bad =
     ([YamlMarshal NilMap, YamlToJSON ''null\<newline>'', NvUnmarshalJSON schema_2020_bad],
      Returned (Some json_SyntaxError))"
    by blast
  from 1 2 3 show ?thesis by (simp add: canonical_def)
qed

text \<open>
  C9. When \<^verbatim>\<open>json.Unmarshal\<close> fails on the schema bytes and leaves the struct as it
  was (as it does on bytes that are not JSON), the error is dropped, the declared
  dialect is empty, \<^verbatim>\<open>validateUsingNewValidator\<close> returns \<^verbatim>\<open>(false, nil)\<close> without
  calling anything, and once the values are converted the legacy engine is called on
  the schema bytes as they are.
\<close>

theorem unparsable_schema_goes_to_legacy:
  assumes "json_Unmarshal L s \<lparr>Schema' = []\<rparr> = (Some e, \<lparr>Schema' = []\<rparr>)"
  shows "declared_dialect L s = []
       \<and> validateUsingNewValidator L j s = ([], Returned (False, None))
       \<and> (yaml_Marshal L vals = Returned (Inr y) \<and> yaml_YAMLToJSON L y = Returned (Inr j) \<longrightarrow>
            fst (ValidateAgainstSingleSchema L vals s) =
              [YamlMarshal vals, YamlToJSON y, GjsValidate s (canonical j)])"
proof -
  have d: "declared_dialect L s = []" using assms by (simp add: declared_dialect_def)
  then have l: "spec_engine L s = LegacyEngine" by (simp add: spec_engine_def)
  from d spec_engine_legacy [OF l] show ?thesis
    by (auto simp: recovered body_converted dispatch_legacy [OF l])
qed

theorem unparsable_schema_goes_to_legacy_witness:
  "declared_dialect toy_libs not_json = []
   \<and> validateUsingNewValidator toy_libs ''{}'' not_json = ([], Returned (False, None))
   \<and> fst (ValidateAgainstSingleSchema toy_libs NilMap not_json) =
       [YamlMarshal NilMap, YamlToJSON ''null\<newline>'', GjsValidate not_json ''{}'']"
proof -
  from unparsable_schema_goes_to_legacy [OF toy_not_json, of "''{}''" NilMap "''null\<newline>''"]
  have 1: "declared_dialect toy_libs not_json = []"
    and 2: "validateUsingNewValidator toy_libs ''{}'' not_json = ([], Returned (False, None))"
    by blast+
  from unparsable_schema_goes_to_legacy [OF toy_not_json, of "''null''" NilMap "''null\<newline>''"]
    toy_marshal_nil toy_tojson_null
  have 3: "fst (ValidateAgainstSingleSchema toy_libs NilMap not_json) =
       [YamlMarshal NilMap, YamlToJSON ''null\<newline>'', GjsValidate not_json (canonical ''null'')]"
    by blast
  from 1 2 3 show ?thesis by (simp add: canonical_def)
qed

text \<open>
  C10. In the loop over the children, an error returned by a child's walk adds its
  text to the builder and the loop goes on with the next sibling. Every error the walk
  returns is an \<^verbatim>\<open>errors.New\<close> of a non-empty text, whatever the error of the node's
  check was: a node whose check returned any error \<open>err\<close> returns the text of \<open>err\<close>
  under its name, followed by the blocks of its children.
\<close>

theorem child_errors_flattened:
  "(index vals (Name d) = VMap m \<and> ValidateAgainstSchema L d m = (t, Returned (Some e)) \<longrightarrow>
      ValidateDependencies L (d # rest) vals sb =
        (t @ fst (ValidateDependencies L rest vals (sb @ Error e)),
         snd (ValidateDependencies L rest vals (sb @ Error e))))
   \<and> (snd (ValidateAgainstSchema L c v) = Returned (Some e') \<longrightarrow>
        e' = errors_New (Error e') \<and> Error e' \<noteq> [])
   \<and> (aligned (Chart n (Some s) ds) v \<and>
       snd (ValidateAgainstSingleSchema L v s) = Returned (Some err) \<longrightarrow>
        snd (ValidateAgainstSchema L (Chart n (Some s) ds) v) =
          Returned (Some (errors_New
            (n @ '':\<newline>'' @ Error err @ concat (map block (deps_failing L ds v))))))"
proof (rule conjI, rule_tac [2] conjI; rule impI)
  assume "index vals (Name d) = VMap m \<and> ValidateAgainstSchema L d m = (t, Returned (Some e))"
  then show "ValidateDependencies L (d # rest) vals sb =
        (t @ fst (ValidateDependencies L rest vals (sb @ Error e)),
         snd (ValidateDependencies L rest vals (sb @ Error e)))"
    by simp
next
  assume a: "snd (ValidateAgainstSchema L c v) = Returned (Some e')"
  from walk_aligned(1) [OF walk_returns_aligned [OF a], of L] a
  have "report (failing L c v) = Some e'" by simp
  then have f: "failing L c v \<noteq> []" and e: "e' = errors_New (concat (map block (failing L c v)))"
    by (auto simp: report_def split: if_splits)
  from f have "concat (map block (failing L c v)) \<noteq> []"
    by (cases "failing L c v") (simp_all add: block_nonempty)
  with e show "e' = errors_New (Error e') \<and> Error e' \<noteq> []" by simp
next
  assume a: "aligned (Chart n (Some s) ds) v \<and>
       snd (ValidateAgainstSingleSchema L v s) = Returned (Some err)"
  then have al: "aligned (Chart n (Some s) ds) v"
    and se: "snd (ValidateAgainstSingleSchema L v s) = Returned (Some err)" by blast+
  have f: "failing L (Chart n (Some s) ds) v = (n, err) # deps_failing L ds v"
    using se by (simp add: own_failing_def own_error_def deps_failing_def)
  have "snd (ValidateAgainstSchema L (Chart n (Some s) ds) v) =
          Returned (report (failing L (Chart n (Some s) ds) v))"
    using walk_aligned(1) [OF al, of L] by (simp only: snd_conv)
  then have "snd (ValidateAgainstSchema L (Chart n (Some s) ds) v) =
          Returned (report ((n, err) # deps_failing L ds v))"
    by (simp only: f)
  then show "snd (ValidateAgainstSchema L (Chart n (Some s) ds) v) =
          Returned (Some (errors_New
            (n @ '':\<newline>'' @ Error err @ concat (map block (deps_failing L ds v)))))"
    by (simp add: report_def)
qed

theorem child_errors_flattened_witness:
  "ValidateDependencies toy_libs
      [Chart ''c1'' (Some schema_none) [], Chart ''c2'' (Some schema_any) []] example_values ''parent:\<newline>''
    = ([YamlMarshal (GoMap []), YamlToJSON ''{}\<newline>'', GjsValidate schema_none ''{}'',
        YamlMarshal NilMap, YamlToJSON ''null\<newline>'', GjsValidate schema_any ''{}''],
       Returned ''parent:\<newline>c1:\<newline>- (root): Must not validate the schema (not)\<newline>'')
   \<and> snd (ValidateAgainstSchema toy_libs (Chart ''db'' (Some schema_2020_bad) []) NilMap) =
       Returned (Some (errors_New ''db:\<newline>metaschema validation failed''))"
proof -
  have i: "index example_values (Name (Chart ''c1'' (Some schema_none) [])) = VMap (GoMap [])"
    by (simp add: example_values_def)
  from child_errors_flattened [where vals = example_values
      and d = "Chart ''c1'' (Some schema_none) []" and m = "GoMap []" and L = toy_libs
      and rest = "[Chart ''c2'' (Some schema_any) []]" and sb = "''parent:\<newline>''"] i toy_c1_walk
  have "ValidateDependencies toy_libs
      [Chart ''c1'' (Some schema_none) [], Chart ''c2'' (Some schema_any) []] example_values ''parent:\<newline>''
    = ([YamlMarshal (GoMap []), YamlToJSON ''{}\<newline>'', GjsValidate schema_none ''{}''] @
       fst (ValidateDependencies toy_libs [Chart ''c2'' (Some schema_any) []] example_values
         (''parent:\<newline>'' @ Error (errors_New ''c1:\<newline>- (root): Must not validate the schema (not)\<newline>''))),
       snd (ValidateDependencies toy_libs [Chart ''c2'' (Some schema_any) []] example_values
         (''parent:\<newline>'' @ Error (errors_New ''c1:\<newline>- (root): Must not validate the schema (not)\<newline>''))))"
    by blast
  then have 1: "ValidateDependencies toy_libs
      [Chart ''c1'' (Some schema_none) [], Chart ''c2'' (Some schema_any) []] example_values ''parent:\<newline>''
    = ([YamlMarshal (GoMap []), YamlToJSON ''{}\<newline>'', GjsValidate schema_none ''{}'',
        YamlMarshal NilMap, YamlToJSON ''null\<newline>'', GjsValidate schema_any ''{}''],
       Returned ''parent:\<newline>c1:\<newline>- (root): Must not validate the schema (not)\<newline>'')"
    by (simp add: example_values_def toy_c2_passes io_return_def)
  have a: "aligned (Chart ''db'' (Some schema_2020_bad) []) NilMap" by simp
  from child_errors_flattened [where L = toy_libs and n = "''db''" and s = schema_2020_bad
      and ds = "[]" and v = NilMap] a toy_bad_check
  have "snd (ValidateAgainstSchema toy_libs (Chart ''db'' (Some schema_2020_bad) []) NilMap) =
       Returned (Some (errors_New (''db'' @ '':\<newline>'' @
         Error (GoError ''*jsonschema.SchemaValidationError'' ''metaschema validation failed'') @
         concat (map block (deps_failing toy_libs [] NilMap)))))"
    by blast
  then have 2: "snd (ValidateAgainstSchema toy_libs (Chart ''db'' (Some schema_2020_bad) []) NilMap) =
       Returned (Some (errors_New ''db:\<newline>metaschema validation failed''))"
    by (simp add: deps_failing_def)
  from 1 2 show ?thesis by blast
qed

end
